theory Spec2Isabelle
  imports Complex_Main "HOL-Library.Multiset"
begin

section \<open>Wind direction text (utils.py, wind_direction_to_text)\<close>

text \<open>
  Python's \<open>x % m\<close> on floats, read over the reals: the result takes the sign of the
  divisor, \<open>x - m * floor (x / m)\<close>. Floating-point rounding is not modelled.
\<close>

definition pymod :: "real \<Rightarrow> real \<Rightarrow> real" where
  "pymod x m = x - m * of_int \<lfloor>x / m\<rfloor>"

text \<open>The table \<open>directions\<close> of the source, in the source's order.\<close>

definition directions :: "(real \<times> real \<times> string) list" where
  "directions =
     [(337.5, 360, ''North''),
      (0, 22.5, ''North''),
      (22.5, 67.5, ''Northeast''),
      (67.5, 112.5, ''East''),
      (112.5, 157.5, ''Southeast''),
      (157.5, 202.5, ''South''),
      (202.5, 247.5, ''Southwest''),
      (247.5, 292.5, ''West''),
      (292.5, 337.5, ''Northwest'')]"

text \<open>
  The \<open>for start, end, direction in directions\<close> loop: the first matching row wins, and
  falling out of the loop returns \<open>"Unknown"\<close>.
\<close>

fun find_direction :: "(real \<times> real \<times> string) list \<Rightarrow> real \<Rightarrow> string" where
  "find_direction [] deg = ''Unknown''"
| "find_direction ((start, stop, direction) # rest) deg =
     (if (start \<le> deg \<and> deg < stop) \<or> (start \<le> deg \<and> deg \<le> stop \<and> stop = 360)
      then direction
      else find_direction rest deg)"

definition wind_direction_to_text :: "real \<Rightarrow> string" where
  "wind_direction_to_text wind_dir_deg = find_direction directions (pymod wind_dir_deg 360)"

section \<open>Retry with exponential backoff (utils.py, retry_with_backoff)\<close>

text \<open>
  An exception is its class name and its message (\<open>str(e)\<close>). The parameter
  \<open>exceptions\<close> of the decorator is the list of class names that the
  \<open>except exceptions as e\<close> clause catches.
\<close>

datatype exn = Exn (exn_class: string) (exn_msg: string)

text \<open>\<open>str.lower\<close> on ASCII letters and the test \<open>sub in s\<close>.\<close>

definition lower_char :: "char \<Rightarrow> char" where
  "lower_char c =
     (case map_of (zip ''ABCDEFGHIJKLMNOPQRSTUVWXYZ'' ''abcdefghijklmnopqrstuvwxyz'') c of
        Some l \<Rightarrow> l
      | None \<Rightarrow> c)"

definition lower :: "string \<Rightarrow> string" where
  "lower s = map lower_char s"

fun starts_with :: "string \<Rightarrow> string \<Rightarrow> bool" where
  "starts_with s [] = True"
| "starts_with [] (p # ps) = False"
| "starts_with (c # cs) (p # ps) = (c = p \<and> starts_with cs ps)"

fun contains :: "string \<Rightarrow> string \<Rightarrow> bool" where
  "contains [] sub = (sub = [])"
| "contains (c # cs) sub = (starts_with (c # cs) sub \<or> contains cs sub)"

text \<open>The test \<open>"timed out" in str(e).lower()\<close>.\<close>

definition is_timeout :: "exn \<Rightarrow> bool" where
  "is_timeout e = contains (lower (exn_msg e)) ''timed out''"

text \<open>
  One invocation of the wrapped function either returns a value or raises. The wrapped
  function is called once per loop iteration, so its behaviour is given per attempt:
  \<open>func k\<close> is what the call made when \<open>retries = k\<close> does.
\<close>

datatype 'a outcome = Returns 'a | Raises exn

text \<open>
  What \<open>wrapper\<close> does: it returns the value of \<open>func\<close>, raises, or leaves the
  \<open>while\<close> loop without a \<open>return\<close> (Python then returns \<open>None\<close>).
\<close>

datatype 'a wrapped = Value 'a | NoValue | Error exn

text \<open>\<open>time.sleep\<close> raises \<open>ValueError\<close> on a negative argument.\<close>

definition sleep_error :: exn where
  "sleep_error = Exn ''ValueError'' ''sleep length must be non-negative''"

text \<open>
  The \<open>while retries <= max_retries\<close> loop of \<open>wrapper\<close>, from the state
  \<open>(retries, delay)\<close>. \<open>rnd k\<close> is the number in \<open>[0, 1)\<close> that \<open>random.random()\<close> draws
  for the jitter when \<open>retries = k\<close>: \<open>random.uniform(0, b)\<close> is \<open>0 + (b - 0) * random()\<close>.
  The result is what the wrapper does, the arguments of the \<open>time.sleep\<close> calls in order,
  and the number of calls of \<open>func\<close>.
\<close>

function wrapper ::
  "nat \<Rightarrow> real \<Rightarrow> string list \<Rightarrow> (nat \<Rightarrow> real) \<Rightarrow> (nat \<Rightarrow> 'a outcome) \<Rightarrow> nat \<Rightarrow> real
     \<Rightarrow> 'a wrapped \<times> real list \<times> nat" where
  "wrapper max_retries backoff_factor exceptions rnd func retries delay =
     (if retries \<le> max_retries then
        (case func retries of
           Returns v \<Rightarrow> (Value v, [], 1)
         | Raises e \<Rightarrow>
             if exn_class e \<notin> set exceptions then (Error e, [], 1)
             else if retries = max_retries then (Error e, [], 1)
             else if is_timeout e then
               (let jitter = 0.1 * delay * rnd retries;
                    sleep_time = delay + jitter
                in if sleep_time < 0 then (Error sleep_error, [], 1)
                   else (case wrapper max_retries backoff_factor exceptions rnd func
                                (retries + 1) (delay * backoff_factor) of
                           (r, sleeps, calls) \<Rightarrow> (r, sleep_time # sleeps, calls + 1)))
             else (Error e, [], 1))
      else (NoValue, [], 0))"
  by pat_completeness auto
termination
  by (relation "measure (\<lambda>(max_retries, _, _, _, _, retries, _). Suc max_retries - retries)") auto

declare wrapper.simps [simp del]

text \<open>\<open>retry_with_backoff(...)(func)\<close>: the loop from \<open>retries = 0\<close>, \<open>delay = initial_delay\<close>.\<close>

definition retry_with_backoff ::
  "nat \<Rightarrow> real \<Rightarrow> real \<Rightarrow> string list \<Rightarrow> (nat \<Rightarrow> real) \<Rightarrow> (nat \<Rightarrow> 'a outcome)
     \<Rightarrow> 'a wrapped \<times> real list \<times> nat" where
  "retry_with_backoff max_retries initial_delay backoff_factor exceptions rnd func =
     wrapper max_retries backoff_factor exceptions rnd func 0 initial_delay"

section \<open>Timestamp normalisation (utils.py, convert_float_to_datetime)\<close>

text \<open>
  A pandas timestamp (\<open>datetime64[ns]\<close>) is a count of nanoseconds since the epoch;
  \<open>NaT\<close> is \<open>None\<close>. A series is the list of its values in index order (a unique index),
  \<open>NaN\<close> being \<open>None\<close>. The values modelled are the floats that hold an integer in the
  \<open>int64\<close> range, which is what \<open>astype('int64')\<close> leaves unchanged.
\<close>

type_synonym timestamp = int

text \<open>\<open>str\<close> of an integer: decimal digits, with a leading minus sign when negative.\<close>

definition digit_char :: "nat \<Rightarrow> char" where
  "digit_char d = ''0123456789'' ! d"

function str_nat :: "nat \<Rightarrow> string" where
  "str_nat n = (if n < 10 then [digit_char n] else str_nat (n div 10) @ [digit_char (n mod 10)])"
  by pat_completeness auto
termination
  by (relation "measure (\<lambda>n. n)") auto

declare str_nat.simps [simp del]

definition str_int :: "int \<Rightarrow> string" where
  "str_int i = (if i < 0 then CHR ''-'' # str_nat (nat (- i)) else str_nat (nat i))"

text \<open>
  \<open>pd.Series(index=series.index, data=series, dtype='datetime64[ns]')\<close>: the cast of a
  float to \<open>datetime64[ns]\<close> reads it as nanoseconds since the epoch, and \<open>NaN\<close> as \<open>NaT\<close>.
\<close>

definition cast_datetime64 :: "int option \<Rightarrow> timestamp option" where
  "cast_datetime64 x = (case x of None \<Rightarrow> None | Some v \<Rightarrow> Some v)"

text \<open>
  The value that \<open>parsed_dates\<close> holds at one index of \<open>non_null\<close>, if any: the outer
  \<open>None\<close> is an index in neither mask, the inner one is \<open>NaT\<close> from \<open>errors='coerce'\<close>.
  The two calls of \<open>pd.to_datetime\<close> (formats \<open>%Y%m%d\<close> and \<open>%Y%m%d%H%M%S\<close>) are the
  parameters \<open>parse8\<close> and \<open>parse14\<close>.
\<close>

definition parsed_date ::
  "(string \<Rightarrow> timestamp option) \<Rightarrow> (string \<Rightarrow> timestamp option) \<Rightarrow> int
     \<Rightarrow> timestamp option option" where
  "parsed_date parse8 parse14 v =
     (let str_date = str_int v in
      if length str_date = 8 then Some (parse8 str_date)
      else if length str_date = 14 then Some (parse14 str_date)
      else None)"

text \<open>
  \<open>datetime_series.update(parsed_dates)\<close> at one index: \<open>update\<close> overwrites with the
  values of \<open>parsed_dates\<close> that are not \<open>NaT\<close> and leaves every other entry as it is.
\<close>

definition update_entry ::
  "(string \<Rightarrow> timestamp option) \<Rightarrow> (string \<Rightarrow> timestamp option) \<Rightarrow> int option
     \<Rightarrow> timestamp option \<Rightarrow> timestamp option" where
  "update_entry parse8 parse14 x current =
     (case x of
        None \<Rightarrow> current
      | Some v \<Rightarrow>
          (case parsed_date parse8 parse14 v of
             Some (Some t) \<Rightarrow> Some t
           | _ \<Rightarrow> current))"

definition convert_float_to_datetime ::
  "(string \<Rightarrow> timestamp option) \<Rightarrow> (string \<Rightarrow> timestamp option) \<Rightarrow> int option list
     \<Rightarrow> timestamp option list" where
  "convert_float_to_datetime parse8 parse14 series =
     (let datetime_series = map cast_datetime64 series;
          non_null = filter (\<lambda>x. x \<noteq> None) series
      in if non_null = [] then datetime_series
         else map2 (update_entry parse8 parse14) series datetime_series)"

section \<open>Row enrichment (utils.py, sample_point_data and get_weather_data)\<close>

text \<open>
  A value of the sampled dictionary is a JSON number or \<open>null\<close>; the dictionary is an
  association list, \<open>data.get(k)\<close> being \<open>map_of data k\<close>.
\<close>

datatype jval = Num real | Null

type_synonym sample_dict = "(string \<times> jval) list"

text \<open>A row of the data frame: the four columns that \<open>get_weather_data\<close> reads.\<close>

record row =
  FIRELABEL :: string
  ignition_datetime :: "timestamp option"
  LATITUDE :: "real option"
  LONGITUDE :: "real option"

text \<open>The dictionary that \<open>get_weather_data\<close> returns; \<open>np.nan\<close> and \<open>None\<close> are \<open>None\<close>.\<close>

record observation =
  temperature_c :: "real option"
  wind_speed_ms :: "real option"
  wind_direction_deg :: "real option"
  wind_direction :: string
  humidity_dewpoint_temperature_2m :: "real option"
  soil_temperature_level_1 :: "real option"
  fire_label :: string
  obs_ignition_datetime :: "timestamp option"

text \<open>
  What the remote service does during one invocation of \<open>sample_point_data\<close>: the answer
  to \<open>IsEqual(sample_result, None).getInfo()\<close> and to \<open>toDictionary().getInfo()\<close>, each
  of which may raise instead.
\<close>

record sampling =
  is_null :: "exn + bool"
  to_dictionary :: "exn + sample_dict"

definition sample_point_data :: "sampling \<Rightarrow> sample_dict option outcome" where
  "sample_point_data s =
     (case is_null s of
        Inl e \<Rightarrow> Raises e
      | Inr True \<Rightarrow> Returns None
      | Inr False \<Rightarrow>
          (case to_dictionary s of
             Inl e \<Rightarrow> Raises e
           | Inr d \<Rightarrow> Returns (Some d)))"

text \<open>
  What the outside world does during one call of \<open>get_weather_data\<close>: an exception while
  the query objects are built (\<open>ee.Date\<close> to \<open>filterDate\<close>), the answer to
  \<open>era5_filtered.size().getInfo()\<close>, an exception while the image is selected
  (\<open>toList\<close> to \<open>resample\<close>), the service's behaviour at each sampling attempt, and the
  random draws of the retry wrapper.
\<close>

record remote =
  build_query :: "exn option"
  image_count :: "exn + nat"
  select_image :: "exn option"
  samplings :: "nat \<Rightarrow> sampling"
  jitter_draws :: "nat \<Rightarrow> real"

text \<open>\<open>sample_point_data_with_retry = retry_with_backoff()(sample_point_data)\<close>.\<close>

definition sample_point_data_with_retry ::
  "remote \<Rightarrow> sample_dict option wrapped \<times> real list \<times> nat" where
  "sample_point_data_with_retry rem =
     retry_with_backoff 3 2 2 [''EEException''] (jitter_draws rem)
       (\<lambda>k. sample_point_data (samplings rem k))"

definition default_values :: "row \<Rightarrow> observation" where
  "default_values r =
     \<lparr> temperature_c = None,
       wind_speed_ms = None,
       wind_direction_deg = None,
       wind_direction = ''No data returned'',
       humidity_dewpoint_temperature_2m = None,
       soil_temperature_level_1 = None,
       fire_label = FIRELABEL r,
       obs_ignition_datetime = ignition_datetime r \<rparr>"

text \<open>\<open>math.atan2(y, x)\<close> over the reals (signed zeros are not modelled).\<close>

definition atan2 :: "real \<Rightarrow> real \<Rightarrow> real" where
  "atan2 y x =
     (if 0 < x then arctan (y / x)
      else if x < 0 then (if 0 \<le> y then arctan (y / x) + pi else arctan (y / x) - pi)
      else if 0 < y then pi / 2
      else if y < 0 then - (pi / 2)
      else 0)"

text \<open>The local variables \<open>wind_speed\<close> and \<open>wind_dir\<close> of \<open>get_weather_data\<close>.\<close>

definition wind_speed :: "real \<Rightarrow> real \<Rightarrow> real" where
  "wind_speed u v = sqrt (u\<^sup>2 + v\<^sup>2)"

definition wind_dir :: "real \<Rightarrow> real \<Rightarrow> real" where
  "wind_dir u v =
     (if u = 0 \<and> v = 0 then 0
      else pymod (270 - (180 / 3.14159) * atan2 v u) 360)"

text \<open>\<open>data.get(key, 0)\<close> and \<open>data.get(key)\<close>.\<close>

definition get_or_zero :: "sample_dict \<Rightarrow> string \<Rightarrow> jval" where
  "get_or_zero data k = (case map_of data k of None \<Rightarrow> Num 0 | Some j \<Rightarrow> j)"

definition get_or_none :: "sample_dict \<Rightarrow> string \<Rightarrow> real option" where
  "get_or_none data k = (case map_of data k of Some (Num x) \<Rightarrow> Some x | _ \<Rightarrow> None)"

definition type_error :: exn where
  "type_error = Exn ''TypeError'' ''unsupported operand type(s) for ** or pow()''"

text \<open>
  Lines 271 to 295: the observation computed from a non-empty dictionary. A \<open>null\<close> wind
  component makes \<open>u**2\<close> raise \<open>TypeError\<close>.
\<close>

definition decode_sample :: "row \<Rightarrow> sample_dict \<Rightarrow> exn + observation" where
  "decode_sample r data =
     (case (get_or_zero data ''u_component_of_wind_10m'',
            get_or_zero data ''v_component_of_wind_10m'') of
        (Num u, Num v) \<Rightarrow>
          Inr \<lparr> temperature_c =
                  (case get_or_none data ''temperature_2m'' of
                     Some temp_k \<Rightarrow> Some (temp_k - 273.15)
                   | None \<Rightarrow> None),
                wind_speed_ms = Some (wind_speed u v),
                wind_direction_deg = Some (wind_dir u v),
                wind_direction = wind_direction_to_text (wind_dir u v),
                humidity_dewpoint_temperature_2m = get_or_none data ''dewpoint_temperature_2m'',
                soil_temperature_level_1 = get_or_none data ''soil_temperature_level_1'',
                fire_label = FIRELABEL r,
                obs_ignition_datetime = ignition_datetime r \<rparr>
      | _ \<Rightarrow> Inl type_error)"

text \<open>
  The body of the outer \<open>try\<close>: \<open>Inl e\<close> is an exception that reaches the handler
  \<open>except Exception\<close>; the inner handler \<open>except ee.EEException\<close> has already turned a
  sampling error of that class into the default observation.
\<close>

definition get_weather_data_try :: "remote \<Rightarrow> row \<Rightarrow> exn + observation" where
  "get_weather_data_try rem r =
     (if ignition_datetime r = None then Inr (default_values r)
      else if LATITUDE r = None \<or> LONGITUDE r = None then Inr (default_values r)
      else
        (case build_query rem of
           Some e \<Rightarrow> Inl e
         | None \<Rightarrow>
             (case image_count rem of
                Inl e \<Rightarrow> Inl e
              | Inr n \<Rightarrow>
                  if n = 0 then Inr (default_values r)
                  else
                    (case select_image rem of
                       Some e \<Rightarrow> Inl e
                     | None \<Rightarrow>
                         (case fst (sample_point_data_with_retry rem) of
                            Error e \<Rightarrow>
                              if exn_class e = ''EEException'' then Inr (default_values r)
                              else Inl e
                          | NoValue \<Rightarrow> Inr (default_values r)
                          | Value None \<Rightarrow> Inr (default_values r)
                          | Value (Some data) \<Rightarrow>
                              if data = [] then Inr (default_values r)
                              else decode_sample r data)))))"

definition get_weather_data :: "remote \<Rightarrow> row \<Rightarrow> observation" where
  "get_weather_data rem r =
     (case get_weather_data_try rem r of
        Inl e \<Rightarrow> default_values r
      | Inr obs \<Rightarrow> obs)"

section \<open>Batch processing (utils.py, process_dataframe)\<close>

text \<open>
  What \<open>process_dataframe\<close> itself prints, saves and sleeps, in order:
  \<^item> \<open>Processing n t\<close>, \<open>Skipping n t\<close>, \<open>Completed n t\<close>: the messages for batch \<open>n\<close> of \<open>t\<close>;
  \<^item> \<open>Saved n t rows\<close>: the call of \<open>save_results_to_downloads\<close> with the file name
    \<open>weather_data_batch_{n}_of_{t}.csv\<close>;
  \<^item> \<open>Sleep d\<close>: the message "Pausing for ..." and a \<open>time.sleep(batch_delay)\<close> that
    returns (on a negative delay \<open>time.sleep\<close> raises \<open>ValueError\<close> instead);
  \<^item> \<open>Concatenating\<close>, \<open>Finalizing\<close>, \<open>Complete\<close>: the messages of the final branch, the
    second with the call of \<open>ee.data.computeValue\<close>;
  \<^item> \<open>NoWeatherData\<close>: the message "No weather data to process.".
  The sleeps of the retry wrapper inside a row are not part of this trace.
\<close>

datatype event =
    Processing nat nat
  | Skipping nat nat
  | Completed nat nat
  | Saved nat nat "observation list"
  | Sleep real
  | Concatenating
  | Finalizing
  | Complete
  | NoWeatherData

text \<open>
  The outside world of a run: the remote service's behaviour for the row at each
  position of the filtered and sorted frame, an exception raised by the checkpoint
  writer for a batch number, and one raised by the final \<open>computeValue\<close>.
\<close>

record world =
  remote_at :: "nat \<Rightarrow> remote"
  save_error :: "nat \<Rightarrow> exn option"
  sync_error :: "exn option"

text \<open>
  \<open>df[df["ignition_datetime"].notna()].sort_values("ignition_datetime")\<close>. The sort of
  pandas is the parameter \<open>sort_values\<close>: its default algorithm is not stable, so the
  order it gives to rows with equal timestamps is left open. \<open>sorts_by_timestamp\<close> says
  what is known of its result on a frame: a permutation of the rows in ascending order
  of timestamp.
\<close>

definition sort_timestamp :: "row \<Rightarrow> timestamp" where
  "sort_timestamp r = (case ignition_datetime r of Some t \<Rightarrow> t | None \<Rightarrow> 0)"

definition sorts_by_timestamp :: "(row list \<Rightarrow> row list) \<Rightarrow> row list \<Rightarrow> bool" where
  "sorts_by_timestamp sort_values df \<longleftrightarrow>
     mset (sort_values df) = mset df \<and> sorted (map sort_timestamp (sort_values df))"

definition normalized_frame :: "(row list \<Rightarrow> row list) \<Rightarrow> row list \<Rightarrow> row list" where
  "normalized_frame sort_values df =
     sort_values (filter (\<lambda>r. ignition_datetime r \<noteq> None) df)"

text \<open>
  \<open>batch.apply(get_weather_data, axis=1, result_type='expand')\<close> for
  \<open>batch = df.iloc[i:i+batch_size]\<close>: one observation per row, in order.
\<close>

definition batch_results :: "world \<Rightarrow> row list \<Rightarrow> nat \<Rightarrow> nat \<Rightarrow> observation list" where
  "batch_results w df batch_size i =
     (let batch = take batch_size (drop i df)
      in map (\<lambda>(k, r). get_weather_data (remote_at w k) r) (zip [i ..< i + length batch] batch))"

text \<open>
  The test \<open>len(batch_results['temperature_c'].value_counts()) == 0\<close>: \<open>value_counts\<close>
  leaves out the null entries, so the test holds when every entry is null. A batch is
  never empty, so the column \<open>temperature_c\<close> is always there.
\<close>

definition no_temperature :: "observation list \<Rightarrow> bool" where
  "no_temperature results = list_all (\<lambda>obs. temperature_c obs = None) results"

text \<open>
  The loop \<open>for i in range(0, len(df), batch_size)\<close> from index \<open>i\<close>, with the list
  \<open>results\<close> and the trace so far. \<open>Inl e\<close> is an exception that leaves the function:
  one of the checkpoint writer, or the \<open>ValueError\<close> of \<open>time.sleep\<close> on a negative
  \<open>batch_delay\<close>.
\<close>

function batch_loop ::
  "world \<Rightarrow> nat \<Rightarrow> real \<Rightarrow> row list \<Rightarrow> nat \<Rightarrow> nat \<Rightarrow> observation list list \<times> event list
     \<Rightarrow> exn + observation list list \<times> event list" where
  "batch_loop w batch_size batch_delay df total_batches i (results, trace) =
     (if 0 < batch_size \<and> i < length df then
        (let batch_num = i div batch_size + 1;
             trace1 = trace @ [Processing batch_num total_batches];
             res = batch_results w df batch_size i
         in if no_temperature res then
              batch_loop w batch_size batch_delay df total_batches (i + batch_size)
                (results, trace1 @ [Skipping batch_num total_batches])
            else
              (case save_error w batch_num of
                 Some e \<Rightarrow> Inl e
               | None \<Rightarrow>
                   (let trace2 = trace1 @ [Completed batch_num total_batches,
                                           Saved batch_num total_batches res]
                    in if batch_num < total_batches then
                         (if batch_delay < 0 then Inl sleep_error
                          else batch_loop w batch_size batch_delay df total_batches
                                 (i + batch_size) (results @ [res], trace2 @ [Sleep batch_delay]))
                       else batch_loop w batch_size batch_delay df total_batches
                              (i + batch_size) (results @ [res], trace2))))
      else Inr (results, trace))"
  by pat_completeness auto
termination
  by (relation "measure (\<lambda>(_, _, _, df, _, i, _). length df - i)") auto

declare batch_loop.simps [simp del]

datatype returned = Weather "observation list" | Unenriched "row list"

definition zero_division_error :: exn where
  "zero_division_error = Exn ''ZeroDivisionError'' ''integer division or modulo by zero''"

definition process_dataframe ::
  "(row list \<Rightarrow> row list) \<Rightarrow> world \<Rightarrow> row list \<Rightarrow> nat \<Rightarrow> real
     \<Rightarrow> exn + returned \<times> event list" where
  "process_dataframe sort_values w df0 batch_size batch_delay =
     (let df = normalized_frame sort_values df0 in
      if batch_size = 0 then Inl zero_division_error
      else
        (let total_batches = (length df + batch_size - 1) div batch_size in
         case batch_loop w batch_size batch_delay df total_batches 0 ([], []) of
           Inl e \<Rightarrow> Inl e
         | Inr (results, trace) \<Rightarrow>
             if results \<noteq> [] then
               (case sync_error w of
                  Some e \<Rightarrow> Inl e
                | None \<Rightarrow>
                    Inr (Weather (concat results),
                         trace @ [Concatenating, Finalizing, Complete]))
             else Inr (Unenriched df, trace @ [NoWeatherData])))"

text \<open>An event that is a progress message for a batch: "Processing" or "Skipping".\<close>

definition progress_only :: "event \<Rightarrow> bool" where
  "progress_only e = (case e of Processing n t \<Rightarrow> True | Skipping n t \<Rightarrow> True | _ \<Rightarrow> False)"

section \<open>Scenarios\<close>

text \<open>Scenarios: a call that always fails with a quota error, one that always times out.\<close>

definition quota_error :: exn where
  "quota_error = Exn ''EEException'' ''Quota exceeded''"

definition timeout_error :: exn where
  "timeout_error = Exn ''EEException'' ''Computation timed out.''"

definition always_quota :: "nat \<Rightarrow> unit outcome" where
  "always_quota k = Raises quota_error"

definition always_timeout :: "nat \<Rightarrow> unit outcome" where
  "always_timeout k = Raises timeout_error"

definition timeout_errors :: "nat \<Rightarrow> exn" where
  "timeout_errors k = timeout_error"

definition no_jitter :: "nat \<Rightarrow> real" where
  "no_jitter k = 0"

definition half_jitter :: "nat \<Rightarrow> real" where
  "half_jitter k = 1 / 2"

text \<open>
  The remote service delivers the non-empty dictionary \<open>data\<close> for the row: the row has
  a timestamp and coordinates, no step raises, the window holds an image, and the
  sampling (through the retry wrapper) returns \<open>data\<close>.
\<close>

definition delivers :: "remote \<Rightarrow> row \<Rightarrow> sample_dict \<Rightarrow> bool" where
  "delivers rem r data \<longleftrightarrow>
     ignition_datetime r \<noteq> None \<and> LATITUDE r \<noteq> None \<and> LONGITUDE r \<noteq> None
     \<and> build_query rem = None
     \<and> (case image_count rem of Inl e \<Rightarrow> False | Inr n \<Rightarrow> 0 < n)
     \<and> select_image rem = None
     \<and> fst (sample_point_data_with_retry rem) = Value (Some data)
     \<and> data \<noteq> []"

text \<open>
  A row with timestamp and coordinates, and a service that returns a given dictionary at
  the first sampling attempt.
\<close>

definition valid_row :: row where
  "valid_row = \<lparr> FIRELABEL = ''G70422'', ignition_datetime = Some 1,
                  LATITUDE = Some 50, LONGITUDE = Some (- 120) \<rparr>"

definition sampling_of :: "sample_dict \<Rightarrow> nat \<Rightarrow> sampling" where
  "sampling_of data k = \<lparr> is_null = Inr False, to_dictionary = Inr data \<rparr>"

definition remote_returning :: "sample_dict \<Rightarrow> remote" where
  "remote_returning data =
     \<lparr> build_query = None, image_count = Inr 3, select_image = None,
       samplings = sampling_of data, jitter_draws = no_jitter \<rparr>"

definition only_v_sample :: sample_dict where
  "only_v_sample = [(''temperature_2m'', Num 300), (''v_component_of_wind_10m'', Num 5)]"

definition only_u_sample :: sample_dict where
  "only_u_sample = [(''temperature_2m'', Num 300), (''u_component_of_wind_10m'', Num (- 4))]"

definition no_wind_sample :: sample_dict where
  "no_wind_sample = [(''temperature_2m'', Num 300)]"

definition west_sample :: sample_dict where
  "west_sample = [(''temperature_2m'', Num 300),
                  (''u_component_of_wind_10m'', Num (- 1)),
                  (''v_component_of_wind_10m'', Num 0)]"

definition row_without_coordinates :: row where
  "row_without_coordinates = \<lparr> FIRELABEL = ''K61234'', ignition_datetime = Some 1,
                               LATITUDE = None, LONGITUDE = None \<rparr>"

definition timeout_sampling :: "nat \<Rightarrow> sampling" where
  "timeout_sampling k = \<lparr> is_null = Inl timeout_error, to_dictionary = Inl timeout_error \<rparr>"

definition remote_timing_out :: remote where
  "remote_timing_out =
     \<lparr> build_query = None, image_count = Inr 3, select_image = None,
       samplings = timeout_sampling, jitter_draws = half_jitter \<rparr>"

text \<open>
  Rows with timestamp 2, with and without coordinates; a world where every row gets a
  dictionary with a temperature at the first attempt and nothing raises.
\<close>

definition late_row :: row where
  "late_row = \<lparr> FIRELABEL = ''C10987'', ignition_datetime = Some 2,
                 LATITUDE = Some 51, LONGITUDE = Some (- 121) \<rparr>"

definition late_row_without_coordinates :: row where
  "late_row_without_coordinates = \<lparr> FIRELABEL = ''N50011'', ignition_datetime = Some 2,
                                    LATITUDE = None, LONGITUDE = None \<rparr>"

definition calm_remote_at :: "nat \<Rightarrow> remote" where
  "calm_remote_at k = remote_returning no_wind_sample"

definition never_failing :: "nat \<Rightarrow> exn option" where
  "never_failing n = None"

definition calm_world :: world where
  "calm_world = \<lparr> remote_at = calm_remote_at, save_error = never_failing, sync_error = None \<rparr>"

text \<open>
  120 rows with timestamps 0 to 119, and a world where the window of the rows at
  positions 50 to 99 holds no image.
\<close>

definition numbered_row :: "nat \<Rightarrow> row" where
  "numbered_row k = \<lparr> FIRELABEL = ''fire'', ignition_datetime = Some (int k),
                       LATITUDE = Some 50, LONGITUDE = Some (- 120) \<rparr>"

definition remote_no_image :: remote where
  "remote_no_image =
     \<lparr> build_query = None, image_count = Inr 0, select_image = None,
       samplings = sampling_of no_wind_sample, jitter_draws = no_jitter \<rparr>"

definition patchy_remote_at :: "nat \<Rightarrow> remote" where
  "patchy_remote_at k =
     (if 50 \<le> k \<and> k < 100 then remote_no_image else remote_returning no_wind_sample)"

definition patchy_world :: world where
  "patchy_world = \<lparr> remote_at = patchy_remote_at, save_error = never_failing, sync_error = None \<rparr>"

section \<open>Properties of the wind direction text\<close>

lemma pymod_360_range: "0 \<le> pymod x 360 \<and> pymod x 360 < 360"
  using floor_divide_lower [of 360 x] floor_divide_upper [of 360 x]
  by (simp add: pymod_def algebra_simps)

lemma find_direction_table:
  "find_direction directions d =
     (if d < 0 \<or> 360 < d then ''Unknown''
      else if d < 22.5 then ''North''
      else if d < 67.5 then ''Northeast''
      else if d < 112.5 then ''East''
      else if d < 157.5 then ''Southeast''
      else if d < 202.5 then ''South''
      else if d < 247.5 then ''Southwest''
      else if d < 292.5 then ''West''
      else if d < 337.5 then ''Northwest''
      else ''North'')"
  by (simp add: directions_def)

text \<open>
  Claim C3, as stated, asks for \<open>44.9\<close> degrees to be labelled "North". The table gives
  "Northeast": the North sector ends at \<open>22.5\<close>.
\<close>

theorem wind_direction_44_9_not_north:
  "wind_direction_to_text 44.9 = ''Northeast'' \<and> wind_direction_to_text 44.9 \<noteq> ''North''"
  by (simp add: wind_direction_to_text_def find_direction_table pymod_def)

text \<open>
  Claim C3, amended. The lookup labels a degree value by 8 sectors of 45 degrees, each
  with its lower bound inclusive and its upper bound exclusive, \<open>[337.5, 360]\<close> and
  \<open>[0, 22.5)\<close> both being "North", and a value outside \<open>[0, 360]\<close> gets the sentinel
  "Unknown". \<open>wind_direction_to_text\<close> applies the lookup to its argument modulo 360,
  which lies in \<open>[0, 360)\<close>. In particular 0 is "North", 44.9 and 45 are "Northeast",
  359.9 is "North" and 180 is "South".
\<close>

theorem wind_direction_sectors:
  "find_direction directions d =
     (if d < 0 \<or> 360 < d then ''Unknown''
      else if d < 22.5 then ''North''
      else if d < 67.5 then ''Northeast''
      else if d < 112.5 then ''East''
      else if d < 157.5 then ''Southeast''
      else if d < 202.5 then ''South''
      else if d < 247.5 then ''Southwest''
      else if d < 292.5 then ''West''
      else if d < 337.5 then ''Northwest''
      else ''North'')
   \<and> wind_direction_to_text x = find_direction directions (pymod x 360)
   \<and> 0 \<le> pymod x 360 \<and> pymod x 360 < 360
   \<and> wind_direction_to_text 0 = ''North''
   \<and> wind_direction_to_text 44.9 = ''Northeast''
   \<and> wind_direction_to_text 45 = ''Northeast''
   \<and> wind_direction_to_text 359.9 = ''North''
   \<and> wind_direction_to_text 180 = ''South''"
proof -
  have vals: "wind_direction_to_text 0 = ''North''"
    "wind_direction_to_text 44.9 = ''Northeast''"
    "wind_direction_to_text 45 = ''Northeast''"
    "wind_direction_to_text 359.9 = ''North''"
    "wind_direction_to_text 180 = ''South''"
    by (simp_all add: wind_direction_to_text_def find_direction_table pymod_def)
  have norm: "wind_direction_to_text x = find_direction directions (pymod x 360)"
    by (simp add: wind_direction_to_text_def)
  from vals norm pymod_360_range [of x] find_direction_table [of d] show ?thesis
    by blast
qed

text \<open>The sectors at concrete directions: 405 degrees is 45 modulo 360.\<close>

theorem wind_direction_sectors_witness:
  "wind_direction_to_text 405 = ''Northeast'' \<and> find_direction directions 361 = ''Unknown''
   \<and> find_direction directions 360 = ''North''"
proof -
  have "pymod 405 360 = 45"
    by (simp add: pymod_def)
  then show ?thesis
    using wind_direction_sectors [of 361 405] wind_direction_sectors [of 360 405]
      wind_direction_sectors [of 45 405]
    by simp
qed

section \<open>Properties of the timestamp normalisation\<close>

lemma convert_float_to_datetime_length:
  "length (convert_float_to_datetime parse8 parse14 series) = length series"
  by (simp add: convert_float_to_datetime_def Let_def)

text \<open>
  Claim C1 at the series \<open>[2020.0, NaN]\<close>. The digit string "2020" has length 4, and the
  output holds at its index the timestamp 2020 nanoseconds after the epoch, not \<open>NaT\<close>:
  the output series starts as the input cast to \<open>datetime64[ns]\<close>, and \<open>update\<close> leaves
  the entry as it is. Only the absent value is \<open>NaT\<close>.
\<close>

theorem short_value_is_not_nat:
  "str_int 2020 = ''2020''
   \<and> convert_float_to_datetime parse8 parse14 [Some 2020, None] = [Some 2020, None]"
  by (simp add: convert_float_to_datetime_def update_entry_def parsed_date_def
      cast_datetime64_def str_int_def str_nat.simps digit_char_def)

section \<open>Properties of the retry wrapper\<close>

lemma is_timeout_timeout_error: "is_timeout timeout_error"
  by (simp add: is_timeout_def timeout_error_def lower_def lower_char_def)

lemma not_is_timeout_quota_error: "\<not> is_timeout quota_error"
  by (simp add: is_timeout_def quota_error_def lower_def lower_char_def)

lemma wrapper_calls_pos:
  "retries \<le> max_retries \<Longrightarrow>
   0 < snd (snd (wrapper max_retries backoff_factor exceptions rnd func retries delay))"
  by (subst wrapper.simps) (simp split: outcome.splits prod.splits add: Let_def)

text \<open>
  Claim C2, as stated, asks for every error of the remote service's class, quota
  exhaustion included, to be retried. With the default parameters, an \<open>EEException\<close>
  whose message is "Quota exceeded" is raised again after one call and no sleep.
\<close>

theorem quota_error_not_retried:
  "exn_class quota_error \<in> set [''EEException'']
   \<and> retry_with_backoff 3 2 2 [''EEException''] no_jitter always_quota
       = (Error quota_error, [], 1)"
  by (simp add: retry_with_backoff_def wrapper.simps always_quota_def
      not_is_timeout_quota_error) (simp add: quota_error_def)

text \<open>
  Claim C2, amended. At any iteration of the loop where the call raises \<open>e\<close>: if \<open>e\<close> is
  not both of a caught class and a timeout (its message contains "timed out", in any
  case), it is raised again at once, after this one call and with no sleep; if it is
  both and retries remain, the wrapper sleeps for the delay plus the jitter and runs
  the loop again with one more retry and the delay multiplied by the backoff factor.
\<close>

theorem retry_only_timeouts:
  assumes "retries \<le> max_retries" and "func retries = Raises e"
  shows "(\<not> (exn_class e \<in> set exceptions \<and> is_timeout e) \<longrightarrow>
            wrapper max_retries backoff_factor exceptions rnd func retries delay
              = (Error e, [], 1))
       \<and> (exn_class e \<in> set exceptions \<and> is_timeout e \<and> retries < max_retries
            \<and> 0 \<le> delay + 0.1 * delay * rnd retries \<longrightarrow>
            (\<exists>r sleeps calls.
               wrapper max_retries backoff_factor exceptions rnd func retries delay
                 = (r, (delay + 0.1 * delay * rnd retries) # sleeps, calls + 2)
               \<and> wrapper max_retries backoff_factor exceptions rnd func (retries + 1)
                   (delay * backoff_factor) = (r, sleeps, calls + 1)))"
proof (intro conjI impI)
  assume "\<not> (exn_class e \<in> set exceptions \<and> is_timeout e)"
  with assms show "wrapper max_retries backoff_factor exceptions rnd func retries delay
              = (Error e, [], 1)"
    by (subst wrapper.simps) auto
next
  assume h: "exn_class e \<in> set exceptions \<and> is_timeout e \<and> retries < max_retries
            \<and> 0 \<le> delay + 0.1 * delay * rnd retries"
  obtain r sleeps c where next_run:
    "wrapper max_retries backoff_factor exceptions rnd func (retries + 1)
       (delay * backoff_factor) = (r, sleeps, c)"
    by (cases "wrapper max_retries backoff_factor exceptions rnd func (retries + 1)
       (delay * backoff_factor)") auto
  from h have "retries + 1 \<le> max_retries" by simp
  from wrapper_calls_pos [OF this, of backoff_factor exceptions rnd func "delay * backoff_factor"]
    next_run
  obtain c' where c: "c = c' + 1"
    by (cases c) auto
  have "wrapper max_retries backoff_factor exceptions rnd func retries delay
          = (r, (delay + 0.1 * delay * rnd retries) # sleeps, c' + 2)"
    using assms h next_run c
    by (subst wrapper.simps) (simp add: Let_def)
  with next_run c show "\<exists>r sleeps calls.
               wrapper max_retries backoff_factor exceptions rnd func retries delay
                 = (r, (delay + 0.1 * delay * rnd retries) # sleeps, calls + 2)
               \<and> wrapper max_retries backoff_factor exceptions rnd func (retries + 1)
                   (delay * backoff_factor) = (r, sleeps, calls + 1)"
    by auto
qed

text \<open>
  Both cases at the first iteration with the default parameters: the quota error is
  raised again at once, the timeout is followed by a sleep of 2 seconds and a retry.
\<close>

theorem retry_only_timeouts_witness:
  "wrapper 3 2 [''EEException''] no_jitter always_quota 0 2 = (Error quota_error, [], 1)
   \<and> (\<exists>r sleeps calls.
        wrapper 3 2 [''EEException''] no_jitter always_timeout 0 2 = (r, 2 # sleeps, calls + 2)
      \<and> wrapper 3 2 [''EEException''] no_jitter always_timeout 1 4 = (r, sleeps, calls + 1))"
proof -
  have le: "(0::nat) \<le> 3" by simp
  have q: "always_quota 0 = Raises quota_error"
    by (simp add: always_quota_def)
  have t: "always_timeout 0 = Raises timeout_error"
    by (simp add: always_timeout_def)
  have tc: "exn_class timeout_error \<in> set [''EEException'']"
    by (simp add: timeout_error_def)
  from retry_only_timeouts [where retries = 0 and max_retries = 3 and func = always_quota
      and e = quota_error and exceptions = "[''EEException'']" and backoff_factor = 2
      and rnd = no_jitter and delay = 2, OF le q]
    not_is_timeout_quota_error
  have first: "wrapper 3 2 [''EEException''] no_jitter always_quota 0 2 = (Error quota_error, [], 1)"
    by simp
  from retry_only_timeouts [where retries = 0 and max_retries = 3 and func = always_timeout
      and e = timeout_error and exceptions = "[''EEException'']" and backoff_factor = 2
      and rnd = no_jitter and delay = 2, OF le t]
    is_timeout_timeout_error tc
  have second: "\<exists>r sleeps calls.
        wrapper 3 2 [''EEException''] no_jitter always_timeout 0 2 = (r, 2 # sleeps, calls + 2)
      \<and> wrapper 3 2 [''EEException''] no_jitter always_timeout 1 4 = (r, sleeps, calls + 1)"
    by (simp add: no_jitter_def)
  from first second show ?thesis by blast
qed

lemma wrapper_exhaust:
  assumes fails: "\<forall>i \<le> max_retries. func i = Raises (err i)
                    \<and> exn_class (err i) \<in> set exceptions \<and> is_timeout (err i)"
    and rnd: "\<forall>i. 0 \<le> rnd i \<and> rnd i < 1"
    and bf: "0 < backoff_factor"
  shows "retries \<le> max_retries \<Longrightarrow> 0 < delay \<Longrightarrow>
         wrapper max_retries backoff_factor exceptions rnd func retries delay =
           (Error (err max_retries),
            map (\<lambda>i. delay * backoff_factor ^ (i - retries)
                       + 0.1 * (delay * backoff_factor ^ (i - retries)) * rnd i)
                [retries ..< max_retries],
            max_retries - retries + 1)"
proof (induction "max_retries - retries" arbitrary: retries delay)
  case 0
  then have "retries = max_retries" by simp
  with fails show ?case
    by (subst wrapper.simps) simp
next
  case (Suc n)
  then have lt: "retries < max_retries" by simp
  have d': "0 < delay * backoff_factor"
    using Suc.prems bf by simp
  have n: "n = max_retries - (retries + 1)"
    using Suc.hyps by simp
  have ih: "wrapper max_retries backoff_factor exceptions rnd func (retries + 1)
              (delay * backoff_factor) =
           (Error (err max_retries),
            map (\<lambda>i. delay * backoff_factor * backoff_factor ^ (i - (retries + 1))
                       + 0.1 * (delay * backoff_factor * backoff_factor ^ (i - (retries + 1))) * rnd i)
                [retries + 1 ..< max_retries],
            max_retries - (retries + 1) + 1)"
    using Suc.hyps(1) [OF n _ d'] lt by simp
  have shift: "map (\<lambda>i. delay * backoff_factor * backoff_factor ^ (i - (retries + 1))
                       + 0.1 * (delay * backoff_factor * backoff_factor ^ (i - (retries + 1))) * rnd i)
                [retries + 1 ..< max_retries]
             = map (\<lambda>i. delay * backoff_factor ^ (i - retries)
                       + 0.1 * (delay * backoff_factor ^ (i - retries)) * rnd i)
                [retries + 1 ..< max_retries]"
  proof (rule map_cong [OF refl])
    fix i assume "i \<in> set [retries + 1 ..< max_retries]"
    then have "i - retries = Suc (i - (retries + 1))" by auto
    then show "delay * backoff_factor * backoff_factor ^ (i - (retries + 1))
                 + 0.1 * (delay * backoff_factor * backoff_factor ^ (i - (retries + 1))) * rnd i
             = delay * backoff_factor ^ (i - retries)
                 + 0.1 * (delay * backoff_factor ^ (i - retries)) * rnd i"
      by (simp add: mult.assoc)
  qed
  have sleep_ok: "\<not> delay + 0.1 * delay * rnd retries < 0"
  proof -
    have "0 \<le> 0.1 * delay * rnd retries"
      using Suc.prems rnd by simp
    with Suc.prems show ?thesis by simp
  qed
  have f: "func retries = Raises (err retries)" "exn_class (err retries) \<in> set exceptions"
    "is_timeout (err retries)"
    using fails lt by auto
  have upt: "[retries ..< max_retries] = retries # [retries + 1 ..< max_retries]"
    using lt by (simp add: upt_conv_Cons)
  show ?case
    apply (subst wrapper.simps)
    using lt f sleep_ok ih shift upt
    apply (simp add: Let_def)
    done
qed

text \<open>
  Claim C7, as stated, covers every call that fails at each attempt with an error of the
  remote service's class, quota exhaustion included. With the default parameters, a call
  that raises the quota error at each of the four possible attempts is called once, with
  no sleep, and its error is raised before any retry.
\<close>

theorem always_quota_not_exhausted:
  "always_quota 0 = Raises quota_error \<and> always_quota 1 = Raises quota_error
   \<and> always_quota 2 = Raises quota_error \<and> always_quota 3 = Raises quota_error
   \<and> exn_class quota_error \<in> set [''EEException'']
   \<and> snd (snd (retry_with_backoff 3 2 2 [''EEException''] half_jitter always_quota)) = 1
   \<and> fst (snd (retry_with_backoff 3 2 2 [''EEException''] half_jitter always_quota)) = []
   \<and> fst (retry_with_backoff 3 2 2 [''EEException''] half_jitter always_quota)
       = Error quota_error"
  by (simp add: retry_with_backoff_def wrapper.simps always_quota_def
      not_is_timeout_quota_error) (simp add: quota_error_def)

text \<open>
  Claim C7, amended to timeouts. Let the call fail at every attempt with an error of a
  caught class that is a timeout (its message contains "timed out"), let the initial
  delay and the backoff factor be positive and every random draw lie in \<open>[0, 1)\<close>. Then
  the wrapper calls the function \<open>max_retries + 1\<close> times, sleeps \<open>max_retries\<close> times,
  the sleep before retry \<open>i\<close> being \<open>initial_delay * backoff_factor ^ i\<close> plus a jitter in
  \<open>[0, 0.1 *\<close> that delay\<open>)\<close>, and raises the error of the last attempt unchanged.
\<close>

theorem retry_exhaustion:
  assumes fails: "\<forall>i \<le> max_retries. func i = Raises (err i)
                    \<and> exn_class (err i) \<in> set exceptions \<and> is_timeout (err i)"
    and rnd: "\<forall>i. 0 \<le> rnd i \<and> rnd i < 1"
    and pos: "0 < initial_delay" "0 < backoff_factor"
  shows "\<exists>sleeps.
           retry_with_backoff max_retries initial_delay backoff_factor exceptions rnd func
             = (Error (err max_retries), sleeps, max_retries + 1)
         \<and> length sleeps = max_retries
         \<and> (\<forall>i < max_retries. \<exists>jitter.
                sleeps ! i = initial_delay * backoff_factor ^ i + jitter
              \<and> 0 \<le> jitter \<and> jitter < 0.1 * (initial_delay * backoff_factor ^ i))"
proof -
  let ?d = "\<lambda>i. initial_delay * backoff_factor ^ i"
  let ?sl = "map (\<lambda>i. ?d i + 0.1 * ?d i * rnd i) [0 ..< max_retries]"
  have run: "retry_with_backoff max_retries initial_delay backoff_factor exceptions rnd func
             = (Error (err max_retries), ?sl, max_retries + 1)"
    using wrapper_exhaust [OF fails rnd pos(2), of 0 initial_delay] pos(1)
    by (simp add: retry_with_backoff_def)
  have jit: "\<exists>jitter. ?sl ! i = ?d i + jitter \<and> 0 \<le> jitter \<and> jitter < 0.1 * ?d i"
    if "i < max_retries" for i
  proof -
    have dpos: "0 < ?d i" using pos by simp
    have "0 \<le> 0.1 * ?d i * rnd i"
      using dpos rnd by simp
    moreover have "0.1 * ?d i * rnd i < 0.1 * ?d i"
    proof -
      have "rnd i < 1" using rnd by simp
      then have "(0.1 * ?d i) * rnd i < (0.1 * ?d i) * 1"
        using dpos by (intro mult_strict_left_mono) simp_all
      then show ?thesis by simp
    qed
    moreover have "?sl ! i = ?d i + 0.1 * ?d i * rnd i"
      using that by simp
    ultimately show ?thesis by blast
  qed
  from run jit show ?thesis
    by (intro exI [of _ ?sl]) simp
qed

text \<open>The default parameters, a call that always times out, every draw one half.\<close>

theorem retry_exhaustion_witness:
  "\<exists>sleeps.
     retry_with_backoff 3 2 2 [''EEException''] half_jitter always_timeout
       = (Error timeout_error, sleeps, 4)
   \<and> length sleeps = 3
   \<and> (\<forall>i < 3. \<exists>jitter. sleeps ! i = 2 * 2 ^ i + jitter \<and> 0 \<le> jitter
                         \<and> jitter < 0.1 * (2 * 2 ^ i))"
proof -
  have fails: "\<forall>i \<le> 3. always_timeout i = Raises (timeout_errors i)
                 \<and> exn_class (timeout_errors i) \<in> set [''EEException'']
                 \<and> is_timeout (timeout_errors i)"
    using is_timeout_timeout_error
    by (simp add: always_timeout_def timeout_errors_def) (simp add: timeout_error_def)
  have rnd: "\<forall>i. 0 \<le> half_jitter i \<and> half_jitter i < 1"
    by (simp add: half_jitter_def)
  have pos: "0 < (2::real)" by simp
  from retry_exhaustion [where max_retries = 3 and func = always_timeout
      and err = timeout_errors and exceptions = "[''EEException'']" and rnd = half_jitter
      and initial_delay = 2 and backoff_factor = 2, OF fails rnd pos pos]
  show ?thesis
    by (simp add: timeout_errors_def)
qed

section \<open>A lower bound on pi\<close>

lemma sin_approx_bound: "sin (314159 / 600000 :: real) < 1 / 2"
proof -
  let ?a = "314159 / 600000 :: real"
  have "\<bar>sin ?a - (\<Sum>m<9. sin_coeff m * ?a ^ m)\<bar> \<le> inverse (fact 9) * \<bar>?a\<bar> ^ 9"
    by (rule Maclaurin_sin_bound)
  moreover have "(\<Sum>m<9. sin_coeff m * ?a ^ m)
      = ?a - ?a ^ 3 / 6 + ?a ^ 5 / 120 - ?a ^ 7 / 5040"
  proof -
    have set9: "{..<9::nat} = {0, 1, 2, 3, 4, 5, 6, 7, 8}"
      by auto
    have coeffs: "sin_coeff 0 = 0" "sin_coeff (Suc 0) = 1" "sin_coeff 2 = 0" "sin_coeff 3 = - 1 / 6"
      "sin_coeff 4 = 0" "sin_coeff 5 = 1 / 120" "sin_coeff 6 = 0" "sin_coeff 7 = - 1 / 5040"
      "sin_coeff 8 = 0"
      by (simp_all add: sin_coeff_def fact_numeral)
    show ?thesis
      unfolding set9 by (simp add: coeffs)
  qed
  moreover have "inverse (fact 9) * \<bar>?a\<bar> ^ 9 = ?a ^ 9 / 362880"
    by (simp add: fact_numeral)
  ultimately have "sin ?a \<le> ?a - ?a ^ 3 / 6 + ?a ^ 5 / 120 - ?a ^ 7 / 5040 + ?a ^ 9 / 362880"
    by linarith
  also have "\<dots> < 1 / 2"
    by (simp add: power_divide)
  finally show ?thesis .
qed

lemma pi_gt_314159: "3.14159 < pi"
proof -
  let ?a = "314159 / 600000 :: real"
  have "sin ?a < sin (pi / 6)"
    using sin_approx_bound by (simp add: sin_30)
  moreover have "- (pi / 2) \<le> ?a" "?a \<le> pi / 2" "- (pi / 2) \<le> pi / 6" "pi / 6 \<le> pi / 2"
    using pi_ge_two by simp_all
  ultimately have "?a < pi / 6"
    by (simp add: sin_mono_less_eq)
  then show ?thesis by simp
qed

section \<open>Properties of the row enrichment\<close>

lemma get_weather_data_delivers:
  "delivers rem r data \<Longrightarrow>
   get_weather_data rem r =
     (case decode_sample r data of Inl e \<Rightarrow> default_values r | Inr obs \<Rightarrow> obs)"
  by (auto simp: delivers_def get_weather_data_def get_weather_data_try_def
      split: sum.splits)

lemma first_attempt_returns:
  "samplings rem 0 = \<lparr> is_null = Inr False, to_dictionary = Inr data \<rparr> \<Longrightarrow>
   sample_point_data_with_retry rem = (Value (Some data), [], 1)"
  by (simp add: sample_point_data_with_retry_def retry_with_backoff_def wrapper.simps
      sample_point_data_def)

lemma delivers_remote_returning_row:
  "data \<noteq> [] \<Longrightarrow> ignition_datetime r \<noteq> None \<Longrightarrow> LATITUDE r \<noteq> None \<Longrightarrow>
   LONGITUDE r \<noteq> None \<Longrightarrow> delivers (remote_returning data) r data"
  by (simp add: delivers_def first_attempt_returns remote_returning_def sampling_of_def)

lemma delivers_remote_returning:
  "data \<noteq> [] \<Longrightarrow> delivers (remote_returning data) valid_row data"
  by (rule delivers_remote_returning_row) (simp_all add: valid_row_def)

lemma wind_speed_zero_left: "wind_speed 0 y = \<bar>y\<bar>"
  by (simp add: wind_speed_def)

lemma wind_speed_zero_right: "wind_speed x 0 = \<bar>x\<bar>"
  by (simp add: wind_speed_def)

lemma wind_dir_calm: "wind_dir 0 0 = 0"
  by (simp add: wind_dir_def)

lemma wind_text_calm: "wind_direction_to_text 0 = ''North''"
  by (simp add: wind_direction_to_text_def find_direction_table pymod_def)

text \<open>
  Claim C10, as stated, asks for a calm-wind observation whenever the u or the v
  component is missing. With only the u component missing and \<open>v = 5\<close>, the wind speed
  is 5.
\<close>

theorem missing_u_wind_speed_not_zero:
  "map_of only_v_sample ''u_component_of_wind_10m'' = None
   \<and> only_v_sample \<noteq> []
   \<and> wind_speed_ms (get_weather_data (remote_returning only_v_sample) valid_row) = Some 5"
proof -
  have d: "delivers (remote_returning only_v_sample) valid_row only_v_sample"
    by (rule delivers_remote_returning) (simp add: only_v_sample_def)
  have "wind_speed_ms (case decode_sample valid_row only_v_sample of
            Inl e \<Rightarrow> default_values valid_row | Inr obs \<Rightarrow> obs) = Some 5"
    by (simp add: decode_sample_def get_or_zero_def wind_speed_zero_left only_v_sample_def)
  then show ?thesis
    by (simp add: get_weather_data_delivers [OF d]) (simp add: only_v_sample_def)
qed

text \<open>
  Claim C10, amended. For a non-empty sampled dictionary, 0 stands in for each missing
  wind component. When both are missing the observation has wind speed 0, direction 0
  and the text "North"; when one is missing and the other is a number, the wind speed
  is the absolute value of that number and the direction is computed from the pair with
  0 in the missing place.
\<close>

theorem missing_wind_components:
  assumes "delivers rem r data"
  shows "(map_of data ''u_component_of_wind_10m'' = None
          \<and> map_of data ''v_component_of_wind_10m'' = None \<longrightarrow>
            wind_speed_ms (get_weather_data rem r) = Some 0
          \<and> wind_direction_deg (get_weather_data rem r) = Some 0
          \<and> wind_direction (get_weather_data rem r) = ''North'')
       \<and> (map_of data ''u_component_of_wind_10m'' = None
          \<and> map_of data ''v_component_of_wind_10m'' = Some (Num v) \<longrightarrow>
            wind_speed_ms (get_weather_data rem r) = Some \<bar>v\<bar>
          \<and> wind_direction_deg (get_weather_data rem r) = Some (wind_dir 0 v)
          \<and> wind_direction (get_weather_data rem r) = wind_direction_to_text (wind_dir 0 v))
       \<and> (map_of data ''u_component_of_wind_10m'' = Some (Num u)
          \<and> map_of data ''v_component_of_wind_10m'' = None \<longrightarrow>
            wind_speed_ms (get_weather_data rem r) = Some \<bar>u\<bar>
          \<and> wind_direction_deg (get_weather_data rem r) = Some (wind_dir u 0)
          \<and> wind_direction (get_weather_data rem r) = wind_direction_to_text (wind_dir u 0))"
  by (simp add: get_weather_data_delivers [OF assms] decode_sample_def get_or_zero_def
      wind_speed_zero_left wind_speed_zero_right wind_dir_calm wind_text_calm)

text \<open>
  A dictionary with no wind component, one with only \<open>v = 5\<close> and one with only \<open>u = -4\<close>.
\<close>

theorem missing_wind_components_witness:
  "wind_speed_ms (get_weather_data (remote_returning no_wind_sample) valid_row) = Some 0
   \<and> wind_direction_deg (get_weather_data (remote_returning no_wind_sample) valid_row) = Some 0
   \<and> wind_direction (get_weather_data (remote_returning no_wind_sample) valid_row) = ''North''
   \<and> wind_speed_ms (get_weather_data (remote_returning only_v_sample) valid_row) = Some 5
   \<and> wind_speed_ms (get_weather_data (remote_returning only_u_sample) valid_row) = Some 4"
proof -
  have d1: "delivers (remote_returning no_wind_sample) valid_row no_wind_sample"
    by (rule delivers_remote_returning) (simp add: no_wind_sample_def)
  have d2: "delivers (remote_returning only_v_sample) valid_row only_v_sample"
    by (rule delivers_remote_returning) (simp add: only_v_sample_def)
  have d3: "delivers (remote_returning only_u_sample) valid_row only_u_sample"
    by (rule delivers_remote_returning) (simp add: only_u_sample_def)
  have m1: "map_of no_wind_sample ''u_component_of_wind_10m'' = None"
    "map_of no_wind_sample ''v_component_of_wind_10m'' = None"
    by (simp_all add: no_wind_sample_def)
  have m2: "map_of only_v_sample ''u_component_of_wind_10m'' = None"
    "map_of only_v_sample ''v_component_of_wind_10m'' = Some (Num 5)"
    by (simp_all add: only_v_sample_def)
  have m3: "map_of only_u_sample ''u_component_of_wind_10m'' = Some (Num (- 4))"
    "map_of only_u_sample ''v_component_of_wind_10m'' = None"
    by (simp_all add: only_u_sample_def)
  from missing_wind_components [OF d1, of 0 0] missing_wind_components [OF d2, of 5 0]
    missing_wind_components [OF d3, of 0 "- 4"] m1 m2 m3
  show ?thesis by simp
qed

lemma pymod_id: "0 \<le> x \<Longrightarrow> x < 360 \<Longrightarrow> pymod x 360 = x"
proof -
  assume "0 \<le> x" "x < 360"
  then have "\<lfloor>x / 360\<rfloor> = 0"
    by (simp add: floor_eq_iff)
  then show ?thesis
    by (simp add: pymod_def)
qed

lemma atan2_west: "atan2 0 (- 1) = pi"
  by (simp add: atan2_def)

lemma truncated_pi_range:
  "0 \<le> 270 - (180 / 3.14159) * pi \<and> 270 - (180 / 3.14159) * pi < 90"
proof -
  have up: "(180 / 3.14159) * pi < (180 / 3.14159) * 4"
    by (intro mult_strict_left_mono pi_less_4) simp
  have lo: "(180 / 3.14159) * 3.14159 < (180 / 3.14159) * pi"
    by (intro mult_strict_left_mono pi_gt_314159) simp
  from up lo show ?thesis by simp
qed

lemma wind_dir_west: "wind_dir (- 1) 0 = 270 - (180 / 3.14159) * pi"
  using truncated_pi_range by (simp add: wind_dir_def atan2_west pymod_id)

text \<open>
  Claim C4 at the sample \<open>u = -1\<close>, \<open>v = 0\<close>, where \<open>atan2(v, u)\<close> is pi. The code divides
  180 by the constant \<open>3.14159\<close>, so the direction it returns is \<open>270 - (180 / 3.14159) * pi\<close>,
  which is below 90, while the formula of the claim, with \<open>180 / pi\<close>, gives 90.
\<close>

theorem wind_direction_truncated_pi:
  "wind_direction_deg (get_weather_data (remote_returning west_sample) valid_row)
     = Some (270 - (180 / 3.14159) * pi)
   \<and> 270 - (180 / 3.14159) * pi < 90
   \<and> pymod (270 - (180 / pi) * atan2 0 (- 1)) 360 = 90"
proof -
  have d: "delivers (remote_returning west_sample) valid_row west_sample"
    by (rule delivers_remote_returning) (simp add: west_sample_def)
  have "decode_sample valid_row west_sample =
          Inr \<lparr> temperature_c = Some (300 - 273.15),
                wind_speed_ms = Some (wind_speed (- 1) 0),
                wind_direction_deg = Some (wind_dir (- 1) 0),
                wind_direction = wind_direction_to_text (wind_dir (- 1) 0),
                humidity_dewpoint_temperature_2m = None,
                soil_temperature_level_1 = None,
                fire_label = FIRELABEL valid_row,
                obs_ignition_datetime = ignition_datetime valid_row \<rparr>"
    by (simp add: decode_sample_def get_or_zero_def get_or_none_def west_sample_def)
  then have first: "wind_direction_deg (get_weather_data (remote_returning west_sample) valid_row)
     = Some (270 - (180 / 3.14159) * pi)"
    by (simp add: get_weather_data_delivers [OF d] wind_dir_west)
  have second: "270 - (180 / 3.14159) * pi < 90"
    using truncated_pi_range by simp
  have third: "pymod (270 - (180 / pi) * atan2 0 (- 1)) 360 = 90"
    by (simp add: atan2_west pymod_id)
  from first second third show ?thesis by blast
qed

lemma wrapper_all_raise:
  assumes "\<forall>k \<le> max_retries. \<exists>e. func k = Raises e"
  shows "retries \<le> max_retries \<Longrightarrow>
         \<exists>e. fst (wrapper max_retries backoff_factor exceptions rnd func retries delay) = Error e"
proof (induction "max_retries - retries" arbitrary: retries delay)
  case 0
  then have eq: "retries = max_retries" by simp
  from assms obtain e where "func max_retries = Raises e" by auto
  with eq show ?case
    by (subst wrapper.simps) simp
next
  case (Suc n)
  then have lt: "retries < max_retries" by simp
  from lt have "retries \<le> max_retries" by simp
  with assms obtain e where e: "func retries = Raises e" by blast
  have n: "n = max_retries - (retries + 1)"
    using Suc.hyps by simp
  from Suc.hyps(1) [OF n, of "delay * backoff_factor"] lt
  obtain e' where "fst (wrapper max_retries backoff_factor exceptions rnd func (retries + 1)
      (delay * backoff_factor)) = Error e'"
    by auto
  with e lt show ?case
    by (subst wrapper.simps) (auto simp: Let_def split: prod.splits)
qed

lemma default_or_decoded:
  "get_weather_data rem r = default_values r
   \<or> (\<exists>data. delivers rem r data \<and> decode_sample r data = Inr (get_weather_data rem r))"
  by (auto simp: get_weather_data_def get_weather_data_try_def delivers_def
      split: sum.splits option.splits wrapped.splits if_splits)

text \<open>
  Claim C8. \<open>get_weather_data\<close> always returns an observation: an exception of the body
  (\<open>get_weather_data_try\<close> giving \<open>Inl e\<close>) ends in the default observation. It returns
  the default observation whenever the timestamp is missing, a coordinate is missing,
  the window holds no image, the sample is \<open>None\<close> or empty, the sampling through the
  retry wrapper raises (so also when each of the four attempts raises), or the image
  count raises. The default observation has every numeric field null, the direction
  text "No data returned", and the row's label and ignition timestamp.
\<close>

theorem get_weather_data_contained:
  "(ignition_datetime r = None \<or> LATITUDE r = None \<or> LONGITUDE r = None
      \<or> image_count rem = Inr 0
      \<or> fst (sample_point_data_with_retry rem) = Value None
      \<or> fst (sample_point_data_with_retry rem) = Value (Some [])
      \<or> (\<exists>e. fst (sample_point_data_with_retry rem) = Error e)
      \<or> (\<forall>k \<le> 3. \<exists>e. sample_point_data (samplings rem k) = Raises e)
      \<or> (\<exists>e. image_count rem = Inl e)
      \<or> (\<exists>e. get_weather_data_try rem r = Inl e)
    \<longrightarrow> get_weather_data rem r = default_values r)
   \<and> temperature_c (default_values r) = None
   \<and> wind_speed_ms (default_values r) = None
   \<and> wind_direction_deg (default_values r) = None
   \<and> humidity_dewpoint_temperature_2m (default_values r) = None
   \<and> soil_temperature_level_1 (default_values r) = None
   \<and> wind_direction (default_values r) = ''No data returned''
   \<and> fire_label (default_values r) = FIRELABEL r
   \<and> obs_ignition_datetime (default_values r) = ignition_datetime r"
proof -
  have all_raise: "\<exists>e. fst (sample_point_data_with_retry rem) = Error e"
    if "\<forall>k \<le> 3. \<exists>e. sample_point_data (samplings rem k) = Raises e"
    using wrapper_all_raise [where max_retries = 3 and retries = 0
        and func = "\<lambda>k. sample_point_data (samplings rem k)"] that
    by (simp add: sample_point_data_with_retry_def retry_with_backoff_def)
  have "get_weather_data rem r = default_values r"
    if "ignition_datetime r = None \<or> LATITUDE r = None \<or> LONGITUDE r = None
      \<or> image_count rem = Inr 0
      \<or> fst (sample_point_data_with_retry rem) = Value None
      \<or> fst (sample_point_data_with_retry rem) = Value (Some [])
      \<or> (\<exists>e. fst (sample_point_data_with_retry rem) = Error e)
      \<or> (\<forall>k \<le> 3. \<exists>e. sample_point_data (samplings rem k) = Raises e)
      \<or> (\<exists>e. image_count rem = Inl e)
      \<or> (\<exists>e. get_weather_data_try rem r = Inl e)"
  proof -
    from that all_raise have c: "ignition_datetime r = None \<or> LATITUDE r = None \<or> LONGITUDE r = None
      \<or> image_count rem = Inr 0
      \<or> fst (sample_point_data_with_retry rem) = Value None
      \<or> fst (sample_point_data_with_retry rem) = Value (Some [])
      \<or> (\<exists>e. fst (sample_point_data_with_retry rem) = Error e)
      \<or> (\<exists>e. image_count rem = Inl e)
      \<or> (\<exists>e. get_weather_data_try rem r = Inl e)"
      by blast
    show ?thesis
    proof (rule disjE [OF default_or_decoded [of rem r]])
      assume "\<exists>data. delivers rem r data \<and> decode_sample r data = Inr (get_weather_data rem r)"
      then obtain data where d: "delivers rem r data"
        and dec: "decode_sample r data = Inr (get_weather_data rem r)" by blast
      from d dec have "\<not> (\<exists>e. get_weather_data_try rem r = Inl e)"
        by (auto simp: delivers_def get_weather_data_try_def split: sum.splits)
      with c d show ?thesis
        by (auto simp: delivers_def)
    qed simp
  qed
  then show ?thesis
    by (simp add: default_values_def)
qed

text \<open>A row without coordinates, and a valid row whose every sampling attempt times out.\<close>

theorem get_weather_data_contained_witness:
  "get_weather_data (remote_returning no_wind_sample) row_without_coordinates
     = default_values row_without_coordinates
   \<and> get_weather_data remote_timing_out valid_row = default_values valid_row"
proof -
  have a: "LATITUDE row_without_coordinates = None"
    by (simp add: row_without_coordinates_def)
  have b: "\<forall>k \<le> 3. \<exists>e. sample_point_data (samplings remote_timing_out k) = Raises e"
    by (simp add: remote_timing_out_def timeout_sampling_def sample_point_data_def)
  from get_weather_data_contained [of row_without_coordinates "remote_returning no_wind_sample"] a
  have first: "get_weather_data (remote_returning no_wind_sample) row_without_coordinates
     = default_values row_without_coordinates"
    by simp
  from get_weather_data_contained [of valid_row remote_timing_out] b
  have second: "get_weather_data remote_timing_out valid_row = default_values valid_row"
    by blast
  from first second show ?thesis by blast
qed

section \<open>Properties of the batch processing\<close>

lemma batch_results_nth:
  "batch_results w df bs i =
     map (\<lambda>k. get_weather_data (remote_at w k) (df ! k)) [i ..< min (i + bs) (length df)]"
proof (rule nth_equalityI)
  show "length (batch_results w df bs i) =
     length (map (\<lambda>k. get_weather_data (remote_at w k) (df ! k)) [i ..< min (i + bs) (length df)])"
    by (auto simp: batch_results_def Let_def min_def)
next
  fix k
  assume "k < length (batch_results w df bs i)"
  then have k: "k < bs" "i + k < length df"
    by (auto simp: batch_results_def Let_def)
  then show "batch_results w df bs i ! k =
     map (\<lambda>k. get_weather_data (remote_at w k) (df ! k)) [i ..< min (i + bs) (length df)] ! k"
    by (simp add: batch_results_def Let_def)
qed

lemma length_batch_results:
  "length (batch_results w df bs i) = min (i + bs) (length df) - i"
  by (simp add: batch_results_nth)

lemma batch_loop_skip:
  assumes "0 < bs" "i < length df" "no_temperature (batch_results w df bs i)"
  shows "batch_loop w bs d df t i (results, trace) =
           batch_loop w bs d df t (i + bs)
             (results, trace @ [Processing (i div bs + 1) t, Skipping (i div bs + 1) t])"
  using assms by (subst batch_loop.simps) (simp add: Let_def)

lemma batch_loop_keep:
  assumes "0 < bs" "i < length df" "\<not> no_temperature (batch_results w df bs i)"
    and "save_error w (i div bs + 1) = None" and "0 \<le> d"
  shows "batch_loop w bs d df t i (results, trace) =
           batch_loop w bs d df t (i + bs)
             (results @ [batch_results w df bs i],
              trace @ [Processing (i div bs + 1) t, Completed (i div bs + 1) t,
                       Saved (i div bs + 1) t (batch_results w df bs i)]
                    @ (if i div bs + 1 < t then [Sleep d] else []))"
  using assms by (subst batch_loop.simps) (simp add: Let_def)

lemma batch_loop_negative_delay:
  assumes "0 < bs" "i < length df" "\<not> no_temperature (batch_results w df bs i)"
    and "save_error w (i div bs + 1) = None" and "d < 0" and "i div bs + 1 < t"
  shows "batch_loop w bs d df t i (results, trace) = Inl sleep_error"
  using assms by (subst batch_loop.simps) (simp add: Let_def)

lemma batch_loop_done:
  "\<not> i < length df \<Longrightarrow> batch_loop w bs d df t i (results, trace) = Inr (results, trace)"
  by (subst batch_loop.simps) simp

lemma batch_loop_all_failed:
  assumes bs: "0 < bs"
    and failed: "\<forall>b. b * bs < length df \<longrightarrow> no_temperature (batch_results w df bs (b * bs))"
  shows "\<exists>trace'. batch_loop w bs d df t (b * bs) (results, trace) = Inr (results, trace @ trace')
                 \<and> list_all progress_only trace'"
proof (induction "length df - b * bs" arbitrary: b trace rule: less_induct)
  case less
  show ?case
  proof (cases "b * bs < length df")
    case False
    then show ?thesis
      by (simp add: batch_loop_done)
  next
    case True
    with failed have nt: "no_temperature (batch_results w df bs (b * bs))" by blast
    have num: "b * bs div bs + 1 = Suc b"
      using bs by simp
    have step: "batch_loop w bs d df t (b * bs) (results, trace) =
           batch_loop w bs d df t (Suc b * bs)
             (results, trace @ [Processing (Suc b) t, Skipping (Suc b) t])"
      using batch_loop_skip [OF bs True nt, of d t results trace]
      unfolding num by (simp add: add.commute)
    have "length df - Suc b * bs < length df - b * bs"
      using True bs by simp
    from less [OF this, of "trace @ [Processing (Suc b) t, Skipping (Suc b) t]"]
    obtain trace' where run:
      "batch_loop w bs d df t (Suc b * bs)
         (results, trace @ [Processing (Suc b) t, Skipping (Suc b) t])
       = Inr (results, (trace @ [Processing (Suc b) t, Skipping (Suc b) t]) @ trace')"
      and prog: "list_all progress_only trace'"
      by blast
    have "batch_loop w bs d df t (b * bs) (results, trace)
            = Inr (results, trace @ ([Processing (Suc b) t, Skipping (Suc b) t] @ trace'))"
      using step run by simp
    moreover have "list_all progress_only ([Processing (Suc b) t, Skipping (Suc b) t] @ trace')"
      using prog by (simp add: progress_only_def)
    ultimately show ?thesis by blast
  qed
qed

lemma no_temperature_iff:
  "no_temperature (batch_results w df bs i) \<longleftrightarrow>
     (\<forall>k. i \<le> k \<and> k < min (i + bs) (length df) \<longrightarrow>
          temperature_c (get_weather_data (remote_at w k) (df ! k)) = None)"
  by (auto simp: no_temperature_def batch_results_nth list_all_iff)

lemma no_coordinates_default:
  "LATITUDE r = None \<Longrightarrow> get_weather_data rem r = default_values r"
  by (simp add: get_weather_data_def get_weather_data_try_def)

lemma temperature_default: "temperature_c (default_values r) = None"
  by (simp add: default_values_def)

lemma temperature_calm:
  assumes "ignition_datetime r \<noteq> None" "LATITUDE r \<noteq> None" "LONGITUDE r \<noteq> None"
  shows "temperature_c (get_weather_data (remote_returning no_wind_sample) r) = Some (300 - 273.15)"
proof -
  have d: "delivers (remote_returning no_wind_sample) r no_wind_sample"
    using assms by (intro delivers_remote_returning_row) (simp_all add: no_wind_sample_def)
  show ?thesis
    by (simp add: get_weather_data_delivers [OF d]) 
       (simp add: decode_sample_def get_or_zero_def get_or_none_def no_wind_sample_def)
qed

lemma sorts_by_timestamp_sort_key: "sorts_by_timestamp (sort_key sort_timestamp) df"
  by (simp add: sorts_by_timestamp_def)

lemma sorts_pair:
  assumes "sorts_by_timestamp sort_values [a, b]"
  shows "sort_timestamp a < sort_timestamp b \<Longrightarrow> sort_values [a, b] = [a, b]"
    and "sort_timestamp b < sort_timestamp a \<Longrightarrow> sort_values [a, b] = [b, a]"
proof -
  from assms have m: "mset (sort_values [a, b]) = mset [a, b]"
    and srt: "sorted (map sort_timestamp (sort_values [a, b]))"
    by (simp_all add: sorts_by_timestamp_def)
  from m have "length (sort_values [a, b]) = length [a, b]"
    by (rule mset_eq_length)
  then obtain x y where xy: "sort_values [a, b] = [x, y]"
    by (cases "sort_values [a, b]" rule: list.exhaust; simp)
       (metis length_0_conv length_Suc_conv)
  with m have "(x = a \<and> y = b) \<or> (x = b \<and> y = a)"
    by (auto simp: add_eq_conv_diff)
  moreover from srt xy have "sort_timestamp x \<le> sort_timestamp y"
    by simp
  ultimately show "sort_timestamp a < sort_timestamp b \<Longrightarrow> sort_values [a, b] = [a, b]"
    and "sort_timestamp b < sort_timestamp a \<Longrightarrow> sort_values [a, b] = [b, a]"
    using xy by auto
qed

lemma normalized_numbered_rows:
  "normalized_frame (sort_key sort_timestamp) (map numbered_row [0..<n]) = map numbered_row [0..<n]"
proof -
  have keep: "filter (\<lambda>r. ignition_datetime r \<noteq> None) (map numbered_row [0..<n])
                = map numbered_row [0..<n]"
    by (simp add: filter_map comp_def numbered_row_def)
  have keys: "map sort_timestamp (map numbered_row [0..<n]) = map int [0..<n]"
    by (simp add: sort_timestamp_def numbered_row_def)
  have "sorted (map int [0..<n])"
    by (simp add: sorted_map sorted_wrt_iff_nth_less)
  then have "sorted (map sort_timestamp (map numbered_row [0..<n]))"
    by (simp only: keys)
  then have "sort_key sort_timestamp (map numbered_row [0..<n]) = map numbered_row [0..<n]"
    by (rule sort_key_id_if_sorted)
  with keep show ?thesis
    by (simp add: normalized_frame_def)
qed

lemma no_image_default: "get_weather_data remote_no_image r = default_values r"
  by (simp add: get_weather_data_def get_weather_data_try_def remote_no_image_def)

text \<open>
  Claim C9. Let the sort give a permutation of the rows with a timestamp in ascending
  order of timestamp (the order among equal timestamps being open), and let the batch
  size be positive. If every batch is classified as failed (no observation of the batch
  has a temperature), \<open>process_dataframe\<close> does not raise: it returns the filtered and
  sorted input frame itself, its trace holds only the "Processing" and "Skipping"
  messages of the batches (no checkpoint is saved) and ends with the message
  "No weather data to process.".
\<close>

theorem total_failure_returns_input:
  assumes srt: "sorts_by_timestamp sort_values (filter (\<lambda>r. ignition_datetime r \<noteq> None) df0)"
    and bs: "0 < batch_size"
    and failed: "\<forall>b. b * batch_size < length (normalized_frame sort_values df0) \<longrightarrow>
                   no_temperature
                     (batch_results w (normalized_frame sort_values df0) batch_size (b * batch_size))"
  shows "\<exists>trace. process_dataframe sort_values w df0 batch_size batch_delay
                   = Inr (Unenriched (normalized_frame sort_values df0), trace @ [NoWeatherData])
               \<and> list_all progress_only trace
               \<and> mset (normalized_frame sort_values df0)
                   = mset (filter (\<lambda>r. ignition_datetime r \<noteq> None) df0)
               \<and> sorted (map sort_timestamp (normalized_frame sort_values df0))"
proof -
  from batch_loop_all_failed [OF bs failed, of batch_delay
      "(length (normalized_frame sort_values df0) + batch_size - 1) div batch_size" 0 "[]" "[]"]
  obtain trace where
    "batch_loop w batch_size batch_delay (normalized_frame sort_values df0)
       ((length (normalized_frame sort_values df0) + batch_size - 1) div batch_size) 0 ([], [])
     = Inr ([], trace)" and "list_all progress_only trace"
    by auto
  with bs have "process_dataframe sort_values w df0 batch_size batch_delay
                   = Inr (Unenriched (normalized_frame sort_values df0), trace @ [NoWeatherData])
               \<and> list_all progress_only trace"
    by (simp add: process_dataframe_def Let_def)
  moreover from srt have "mset (normalized_frame sort_values df0)
                   = mset (filter (\<lambda>r. ignition_datetime r \<noteq> None) df0)
               \<and> sorted (map sort_timestamp (normalized_frame sort_values df0))"
    by (simp add: sorts_by_timestamp_def normalized_frame_def)
  ultimately show ?thesis by blast
qed

text \<open>Two rows without coordinates, one row per batch, sorted by insertion sort.\<close>

theorem total_failure_returns_input_witness:
  "\<exists>trace. process_dataframe (sort_key sort_timestamp) calm_world
             [late_row_without_coordinates, row_without_coordinates] 1 3
             = Inr (Unenriched [row_without_coordinates, late_row_without_coordinates],
                    trace @ [NoWeatherData])
          \<and> list_all progress_only trace"
proof -
  let ?df0 = "[late_row_without_coordinates, row_without_coordinates]"
  have norm: "normalized_frame (sort_key sort_timestamp) ?df0
                = [row_without_coordinates, late_row_without_coordinates]"
    by (simp add: normalized_frame_def sort_timestamp_def late_row_without_coordinates_def
        row_without_coordinates_def)
  have bs: "0 < (1::nat)" by simp
  have srt: "sorts_by_timestamp (sort_key sort_timestamp)
               (filter (\<lambda>r. ignition_datetime r \<noteq> None) ?df0)"
    by (rule sorts_by_timestamp_sort_key)
  have "temperature_c (get_weather_data (remote_at w k)
          ([row_without_coordinates, late_row_without_coordinates] ! k)) = None"
    if "k < 2" for k and w :: world
  proof -
    from that have "k = 0 \<or> k = 1" by auto
    then have "LATITUDE ([row_without_coordinates, late_row_without_coordinates] ! k) = None"
      by (auto simp: row_without_coordinates_def late_row_without_coordinates_def)
    then show ?thesis
      by (simp add: no_coordinates_default temperature_default)
  qed
  then have failed: "\<forall>b. b * 1 < length (normalized_frame (sort_key sort_timestamp) ?df0) \<longrightarrow>
        no_temperature (batch_results calm_world
          (normalized_frame (sort_key sort_timestamp) ?df0) 1 (b * 1))"
    by (simp add: norm no_temperature_iff)
  from total_failure_returns_input [OF srt bs failed, of 3] show ?thesis
    by (auto simp: norm)
qed

lemma normalize_failing_first:
  "sorts_by_timestamp sort_values [late_row, row_without_coordinates] \<Longrightarrow>
   normalized_frame sort_values [late_row, row_without_coordinates]
     = [row_without_coordinates, late_row]"
  using sorts_pair(2) [of sort_values late_row row_without_coordinates]
  by (simp add: normalized_frame_def late_row_def row_without_coordinates_def)
     (simp add: sort_timestamp_def)

lemma normalize_failing_second:
  "sorts_by_timestamp sort_values [valid_row, late_row_without_coordinates] \<Longrightarrow>
   normalized_frame sort_values [valid_row, late_row_without_coordinates]
     = [valid_row, late_row_without_coordinates]"
  using sorts_pair(1) [of sort_values valid_row late_row_without_coordinates]
  by (simp add: normalized_frame_def valid_row_def late_row_without_coordinates_def)
     (simp add: sort_timestamp_def)

lemma batch_results_single:
  "i < length df \<Longrightarrow>
   batch_results w df (Suc 0) i = [get_weather_data (remote_at w i) (df ! i)]"
  by (simp add: batch_results_nth min_def)

lemma stranded_default:
  "get_weather_data rem row_without_coordinates = default_values row_without_coordinates"
  "get_weather_data rem late_row_without_coordinates = default_values late_row_without_coordinates"
  by (simp_all add: no_coordinates_default row_without_coordinates_def
      late_row_without_coordinates_def)

lemma calm_late_row: "temperature_c (get_weather_data (remote_returning no_wind_sample) late_row) \<noteq> None"
  by (simp add: temperature_calm late_row_def)

lemma calm_valid_row: "temperature_c (get_weather_data (remote_returning no_wind_sample) valid_row) \<noteq> None"
  by (simp add: temperature_calm valid_row_def)

text \<open>
  Claim C5 on two rows with distinct timestamps, one row per batch and a delay of 3
  seconds, for every sort that gives a permutation in ascending order of timestamp.
  When the first batch has no temperature, the trace goes from "Skipping batch 1" to
  "Processing batch 2" with no sleep in between: the \<open>continue\<close> of the skip branch
  leaves the iteration before the pause. When the first batch succeeds, the pause is
  there.
\<close>

theorem failed_batch_skips_pause:
  assumes s1: "sorts_by_timestamp sort_values [late_row, row_without_coordinates]"
    and s2: "sorts_by_timestamp sort_values [valid_row, late_row_without_coordinates]"
  shows "process_dataframe sort_values calm_world [late_row, row_without_coordinates] 1 3 =
     Inr (Weather [get_weather_data (remote_returning no_wind_sample) late_row],
          [Processing 1 2, Skipping 1 2,
           Processing 2 2, Completed 2 2,
           Saved 2 2 [get_weather_data (remote_returning no_wind_sample) late_row],
           Concatenating, Finalizing, Complete])
   \<and> process_dataframe sort_values calm_world [valid_row, late_row_without_coordinates] 1 3 =
     Inr (Weather [get_weather_data (remote_returning no_wind_sample) valid_row],
          [Processing 1 2, Completed 1 2,
           Saved 1 2 [get_weather_data (remote_returning no_wind_sample) valid_row],
           Sleep 3,
           Processing 2 2, Skipping 2 2,
           Concatenating, Finalizing, Complete])"
proof -
  let ?df = "[row_without_coordinates, late_row]"
  have w: "remote_at calm_world k = remote_returning no_wind_sample"
    "save_error calm_world n = None" "sync_error calm_world = None" for k n
    by (simp_all add: calm_world_def calm_remote_at_def never_failing_def)
  have a0: "no_temperature (batch_results calm_world ?df 1 0)"
    by (simp add: batch_results_single no_temperature_def stranded_default
        temperature_default)
  have a1: "\<not> no_temperature (batch_results calm_world ?df 1 1)"
    using calm_late_row by (simp add: batch_results_single no_temperature_def w)
  have loop_a: "batch_loop calm_world 1 3 ?df 2 0 ([], []) =
      Inr ([ [get_weather_data (remote_returning no_wind_sample) late_row] ],
           [Processing 1 2, Skipping 1 2, Processing 2 2, Completed 2 2,
            Saved 2 2 [get_weather_data (remote_returning no_wind_sample) late_row]])"
    using batch_loop_skip [of 1 0 ?df calm_world 3 2 "[]" "[]"] a0
      batch_loop_keep [of 1 1 ?df calm_world 3 2 "[]" "[Processing 1 2, Skipping 1 2]"] a1
    by (simp add: w batch_loop_done batch_results_single)
  let ?dg = "[valid_row, late_row_without_coordinates]"
  have b0: "\<not> no_temperature (batch_results calm_world ?dg 1 0)"
    using calm_valid_row by (simp add: batch_results_single no_temperature_def w)
  have b1: "no_temperature (batch_results calm_world ?dg 1 1)"
    by (simp add: batch_results_single no_temperature_def stranded_default
        temperature_default)
  have loop_b: "batch_loop calm_world 1 3 ?dg 2 0 ([], []) =
      Inr ([ [get_weather_data (remote_returning no_wind_sample) valid_row] ],
           [Processing 1 2, Completed 1 2,
            Saved 1 2 [get_weather_data (remote_returning no_wind_sample) valid_row],
            Sleep 3, Processing 2 2, Skipping 2 2])"
    using batch_loop_keep [of 1 0 ?dg calm_world 3 2 "[]" "[]"] b0
      batch_loop_skip [of 1 1 ?dg calm_world 3 2
        "[ [get_weather_data (remote_returning no_wind_sample) valid_row] ]"
        "[Processing 1 2, Completed 1 2,
            Saved 1 2 [get_weather_data (remote_returning no_wind_sample) valid_row], Sleep 3]"] b1
    by (simp add: w batch_loop_done batch_results_single)
  have two: "Suc (Suc 0) = 2" by simp
  have first: "process_dataframe sort_values calm_world [late_row, row_without_coordinates] 1 3 =
     Inr (Weather [get_weather_data (remote_returning no_wind_sample) late_row],
          [Processing 1 2, Skipping 1 2,
           Processing 2 2, Completed 2 2,
           Saved 2 2 [get_weather_data (remote_returning no_wind_sample) late_row],
           Concatenating, Finalizing, Complete])"
    unfolding process_dataframe_def normalize_failing_first [OF s1] Let_def
    using loop_a by (simp add: w two)
  have second: "process_dataframe sort_values calm_world [valid_row, late_row_without_coordinates] 1 3 =
     Inr (Weather [get_weather_data (remote_returning no_wind_sample) valid_row],
          [Processing 1 2, Completed 1 2,
           Saved 1 2 [get_weather_data (remote_returning no_wind_sample) valid_row],
           Sleep 3,
           Processing 2 2, Skipping 2 2,
           Concatenating, Finalizing, Complete])"
    unfolding process_dataframe_def normalize_failing_second [OF s2] Let_def
    using loop_b by (simp add: w two)
  from first second show ?thesis by blast
qed

text \<open>The two runs with insertion sort as the sort.\<close>

theorem failed_batch_skips_pause_witness:
  "process_dataframe (sort_key sort_timestamp) calm_world [late_row, row_without_coordinates] 1 3 =
     Inr (Weather [get_weather_data (remote_returning no_wind_sample) late_row],
          [Processing 1 2, Skipping 1 2,
           Processing 2 2, Completed 2 2,
           Saved 2 2 [get_weather_data (remote_returning no_wind_sample) late_row],
           Concatenating, Finalizing, Complete])
   \<and> process_dataframe (sort_key sort_timestamp) calm_world
       [valid_row, late_row_without_coordinates] 1 3 =
     Inr (Weather [get_weather_data (remote_returning no_wind_sample) valid_row],
          [Processing 1 2, Completed 1 2,
           Saved 1 2 [get_weather_data (remote_returning no_wind_sample) valid_row],
           Sleep 3,
           Processing 2 2, Skipping 2 2,
           Concatenating, Finalizing, Complete])"
  by (rule failed_batch_skips_pause [OF sorts_by_timestamp_sort_key sorts_by_timestamp_sort_key])

text \<open>
  Claim C6. A batch whose observations hold no temperature adds nothing to \<open>results\<close>
  and saves no checkpoint: the loop goes on at the next batch with only the messages
  "Processing" and "Skipping" added to the trace. For 120 rows with a timestamp (in
  whatever order the sort leaves them) and batch size 50 there are 3 batches, of 50, 50
  and 20 rows; if every row of batch 2 gets the default observation, while batches 1
  and 3 hold a temperature, the delay is not negative and neither the checkpoint
  writer nor the final synchronisation raises, the output is the 70 observations of
  batches 1 and 3, and batch 2 is reported as skipped.
\<close>

theorem batch_isolation:
  assumes len: "length (normalized_frame sort_values df0) = 120"
    and nodata: "\<forall>k. 50 \<le> k \<and> k < 100 \<longrightarrow>
                   get_weather_data (remote_at w k) (normalized_frame sort_values df0 ! k)
                     = default_values (normalized_frame sort_values df0 ! k)"
    and ok1: "\<not> no_temperature (batch_results w (normalized_frame sort_values df0) 50 0)"
    and ok3: "\<not> no_temperature (batch_results w (normalized_frame sort_values df0) 50 100)"
    and saves: "save_error w 1 = None" "save_error w 3 = None"
    and sync: "sync_error w = None"
    and delay: "0 \<le> batch_delay"
  shows "process_dataframe sort_values w df0 50 batch_delay =
           Inr (Weather (batch_results w (normalized_frame sort_values df0) 50 0
                         @ batch_results w (normalized_frame sort_values df0) 50 100),
                [Processing 1 3, Completed 1 3,
                 Saved 1 3 (batch_results w (normalized_frame sort_values df0) 50 0),
                 Sleep batch_delay,
                 Processing 2 3, Skipping 2 3,
                 Processing 3 3, Completed 3 3,
                 Saved 3 3 (batch_results w (normalized_frame sort_values df0) 50 100),
                 Concatenating, Finalizing, Complete])
       \<and> length (batch_results w (normalized_frame sort_values df0) 50 0) = 50
       \<and> length (batch_results w (normalized_frame sort_values df0) 50 50) = 50
       \<and> length (batch_results w (normalized_frame sort_values df0) 50 100) = 20
       \<and> length (batch_results w (normalized_frame sort_values df0) 50 0
                  @ batch_results w (normalized_frame sort_values df0) 50 100) = 70
       \<and> (0 < bs \<and> i < length df \<and> no_temperature (batch_results w' df bs i) \<longrightarrow>
            batch_loop w' bs d df t i (results, trace) =
              batch_loop w' bs d df t (i + bs)
                (results, trace @ [Processing (i div bs + 1) t, Skipping (i div bs + 1) t]))"
proof -
  have two: "Suc (Suc 0) = 2" by simp
  let ?df = "normalized_frame sort_values df0"
  let ?b1 = "batch_results w ?df 50 0"
  let ?b3 = "batch_results w ?df 50 100"
  have lens: "length ?b1 = 50" "length (batch_results w ?df 50 50) = 50" "length ?b3 = 20"
    by (simp_all add: length_batch_results len)
  have fail2: "no_temperature (batch_results w ?df 50 50)"
    using nodata by (simp add: no_temperature_iff len temperature_default)
  have s1: "batch_loop w 50 batch_delay ?df 3 0 ([], []) =
              batch_loop w 50 batch_delay ?df 3 50
                ([?b1], [Processing 1 3, Completed 1 3, Saved 1 3 ?b1, Sleep batch_delay])"
    using batch_loop_keep [of 50 0 ?df w batch_delay 3 "[]" "[]"] ok1 saves len delay
    by simp
  have s2: "batch_loop w 50 batch_delay ?df 3 50
                ([?b1], [Processing 1 3, Completed 1 3, Saved 1 3 ?b1, Sleep batch_delay]) =
             batch_loop w 50 batch_delay ?df 3 100
                ([?b1], [Processing 1 3, Completed 1 3, Saved 1 3 ?b1, Sleep batch_delay,
                         Processing 2 3, Skipping 2 3])"
    using batch_loop_skip [of 50 50 ?df w batch_delay 3 "[?b1]"
        "[Processing 1 3, Completed 1 3, Saved 1 3 ?b1, Sleep batch_delay]"] fail2 len
    by (simp add: two)
  have s3: "batch_loop w 50 batch_delay ?df 3 100
                ([?b1], [Processing 1 3, Completed 1 3, Saved 1 3 ?b1, Sleep batch_delay,
                         Processing 2 3, Skipping 2 3]) =
             batch_loop w 50 batch_delay ?df 3 150
                ([?b1, ?b3], [Processing 1 3, Completed 1 3, Saved 1 3 ?b1, Sleep batch_delay,
                         Processing 2 3, Skipping 2 3,
                         Processing 3 3, Completed 3 3, Saved 3 3 ?b3])"
    using batch_loop_keep [of 50 100 ?df w batch_delay 3 "[?b1]"
        "[Processing 1 3, Completed 1 3, Saved 1 3 ?b1, Sleep batch_delay,
                         Processing 2 3, Skipping 2 3]"] ok3 saves len delay
    by (simp add: two)
  have s4: "batch_loop w 50 batch_delay ?df 3 150
                ([?b1, ?b3], [Processing 1 3, Completed 1 3, Saved 1 3 ?b1, Sleep batch_delay,
                         Processing 2 3, Skipping 2 3,
                         Processing 3 3, Completed 3 3, Saved 3 3 ?b3]) =
             Inr ([?b1, ?b3], [Processing 1 3, Completed 1 3, Saved 1 3 ?b1, Sleep batch_delay,
                         Processing 2 3, Skipping 2 3,
                         Processing 3 3, Completed 3 3, Saved 3 3 ?b3])"
    by (rule batch_loop_done) (simp add: len)
  have total: "(length ?df + 50 - 1) div 50 = (3::nat)"
    by (simp add: len)
  have run: "process_dataframe sort_values w df0 50 batch_delay =
           Inr (Weather (?b1 @ ?b3),
                [Processing 1 3, Completed 1 3, Saved 1 3 ?b1, Sleep batch_delay,
                 Processing 2 3, Skipping 2 3,
                 Processing 3 3, Completed 3 3, Saved 3 3 ?b3,
                 Concatenating, Finalizing, Complete])"
  proof -
    have loop: "batch_loop w 50 batch_delay ?df 3 0 ([], []) =
             Inr ([?b1, ?b3], [Processing 1 3, Completed 1 3, Saved 1 3 ?b1, Sleep batch_delay,
                         Processing 2 3, Skipping 2 3,
                         Processing 3 3, Completed 3 3, Saved 3 3 ?b3])"
      using s1 s2 s3 s4 by (simp only:)
    show ?thesis
      unfolding process_dataframe_def Let_def total loop
      by (simp add: sync)
  qed
  have step: "batch_loop w' bs d df t i (results, trace) =
              batch_loop w' bs d df t (i + bs)
                (results, trace @ [Processing (i div bs + 1) t, Skipping (i div bs + 1) t])"
    if "0 < bs \<and> i < length df \<and> no_temperature (batch_results w' df bs i)"
    using that batch_loop_skip [of bs i df w' d t results trace] by blast
  from run lens step show ?thesis
    by simp
qed

text \<open>
  120 numbered rows, insertion sort as the sort, and the world where the rows at
  positions 50 to 99 find no image.
\<close>

theorem batch_isolation_witness:
  "process_dataframe (sort_key sort_timestamp) patchy_world (map numbered_row [0..<120]) 50 3 =
     Inr (Weather (batch_results patchy_world (map numbered_row [0..<120]) 50 0
                   @ batch_results patchy_world (map numbered_row [0..<120]) 50 100),
          [Processing 1 3, Completed 1 3,
           Saved 1 3 (batch_results patchy_world (map numbered_row [0..<120]) 50 0),
           Sleep 3,
           Processing 2 3, Skipping 2 3,
           Processing 3 3, Completed 3 3,
           Saved 3 3 (batch_results patchy_world (map numbered_row [0..<120]) 50 100),
           Concatenating, Finalizing, Complete])
   \<and> length (batch_results patchy_world (map numbered_row [0..<120]) 50 0
             @ batch_results patchy_world (map numbered_row [0..<120]) 50 100) = 70
   \<and> batch_loop patchy_world 50 3 (map numbered_row [0..<120]) 3 50 ([], []) =
       batch_loop patchy_world 50 3 (map numbered_row [0..<120]) 3 100
         ([], [Processing 2 3, Skipping 2 3])"
proof -
  let ?df0 = "map numbered_row [0..<120]"
  have norm: "normalized_frame (sort_key sort_timestamp) ?df0 = ?df0"
    by (rule normalized_numbered_rows)
  have len: "length (normalized_frame (sort_key sort_timestamp) ?df0) = 120"
    by (simp add: norm)
  have w: "remote_at patchy_world k = patchy_remote_at k" "save_error patchy_world n = None"
    "sync_error patchy_world = None" for k n
    by (simp_all add: patchy_world_def never_failing_def)
  have nodata: "\<forall>k. 50 \<le> k \<and> k < 100 \<longrightarrow>
         get_weather_data (remote_at patchy_world k) (normalized_frame (sort_key sort_timestamp) ?df0 ! k)
           = default_values (normalized_frame (sort_key sort_timestamp) ?df0 ! k)"
    by (simp add: w patchy_remote_at_def no_image_default)
  have good: "temperature_c (get_weather_data (remote_at patchy_world k) (?df0 ! k)) \<noteq> None"
    if "k < 50 \<or> (100 \<le> k \<and> k < 120)" for k
  proof -
    from that have "k < 120" by auto
    then have "?df0 ! k = numbered_row k" by simp
    moreover have "remote_at patchy_world k = remote_returning no_wind_sample"
      using that by (auto simp: w patchy_remote_at_def)
    ultimately show ?thesis
      by (simp add: temperature_calm numbered_row_def)
  qed
  have ok1: "\<not> no_temperature (batch_results patchy_world (normalized_frame (sort_key sort_timestamp) ?df0) 50 0)"
    unfolding norm no_temperature_iff using good [of 0] by (intro notI) auto
  have ok3: "\<not> no_temperature (batch_results patchy_world (normalized_frame (sort_key sort_timestamp) ?df0) 50 100)"
    unfolding norm no_temperature_iff using good [of 100] by (intro notI) auto
  have fail2: "no_temperature (batch_results patchy_world ?df0 50 50)"
    using nodata by (simp add: norm no_temperature_iff temperature_default)
  have delay: "0 \<le> (3::real)" by simp
  from batch_isolation [where bs = 50 and i = 50 and df = ?df0 and w' = patchy_world
      and d = 3 and t = 3 and results = "[]" and trace = "[]" and batch_delay = 3,
      OF len nodata ok1 ok3 w(2) w(2) w(3) delay] fail2
  show ?thesis
    by (simp add: norm numeral_2_eq_2 [symmetric])
qed

end
